theory Spec2Isabelle
  imports Complex_Main
begin

section \<open>The ReadwiseModal component (src/components/ReadwiseModal.js)\<close>

text \<open>
  The component is a React function component. Its hook state (the \<open>useState\<close> cells and the
  one \<open>useRef\<close> that the handlers use) is a record; every handler of the source is a function
  from state to state. What the handlers do to the browser is part of the same record:
  the listeners registered on the router and on \<open>window\<close>, the animation-frame callbacks that
  were requested and not yet run or cancelled, and the fetch requests that were issued.
  Each event is processed to completion: the handler runs, and the drag effect
  (\<open>useEffect(..., [isDragging, dragOffset])\<close>) re-runs, cleanup first, when one of its
  dependencies was set by the handler, before the next event is taken.
  The source tests nowhere whether the instance is still mounted. The one piece of code
  that can run after teardown is the continuation of the fetch; there the model spells
  out what React does with a setter called on an unmounted instance: nothing.
\<close>

subsection \<open>Data\<close>

text \<open>A point \<open>{ x, y }\<close> in CSS pixels, as a pair.\<close>

type_synonym point = "int \<times> int"

definition psub :: "point \<Rightarrow> point \<Rightarrow> point" where
  "psub p q = (fst p - fst q, snd p - snd q)"

text \<open>
  The values that \<open>JSON.parse\<close> produces. A string is the list of its code units. A number
  is the value of the double it parsed to, or infinite (a numeral beyond the range of
  doubles). Of an object the component reads the members \<open>text\<close>, \<open>title\<close> and \<open>author\<close> and
  no other, so an object is given by these three, \<open>None\<close> for a member it does not have.
\<close>

type_synonym jstring = "nat list"

datatype jnum = Finite real | Infinite

datatype json =
    JNull
  | JBool bool
  | JNum jnum
  | JStr jstring
  | JArr "json list"
  | JObj "json option" "json option" "json option"

text \<open>JavaScript truthiness.\<close>

fun truthy_num :: "jnum \<Rightarrow> bool" where
  "truthy_num (Finite x) = (x \<noteq> 0)"
| "truthy_num Infinite = True"

fun truthy :: "json \<Rightarrow> bool" where
  "truthy JNull = False"
| "truthy (JBool b) = b"
| "truthy (JNum n) = truthy_num n"
| "truthy (JStr s) = (s \<noteq> [])"
| "truthy (JArr xs) = True"
| "truthy (JObj t ti a) = True"

text \<open>The same for a value that may be \<open>undefined\<close> (\<open>None\<close>).\<close>

definition truthy_opt :: "json option \<Rightarrow> bool" where
  "truthy_opt v = (case v of None \<Rightarrow> False | Some x \<Rightarrow> truthy x)"

text \<open>
  The members that the highlight block reads. Only an object has them: a boolean, a
  number, a string and an array have no property of these names.
\<close>

fun member_text :: "json \<Rightarrow> json option" where
  "member_text (JObj t ti a) = t"
| "member_text v = None"

fun member_title :: "json \<Rightarrow> json option" where
  "member_title (JObj t ti a) = ti"
| "member_title v = None"

fun member_author :: "json \<Rightarrow> json option" where
  "member_author (JObj t ti a) = a"
| "member_author v = None"

text \<open>
  Reading a member of the value in a variable: a \<open>TypeError\<close> when the variable holds \<open>null\<close>
  or \<open>undefined\<close> (both \<open>None\<close> here, or the JSON value \<open>null\<close>), the member otherwise.
\<close>

datatype read_error = ReadOfNull

definition get_member :: "json option \<Rightarrow> (json \<Rightarrow> json option) \<Rightarrow> read_error + json option" where
  "get_member recv sel =
     (case recv of
        None \<Rightarrow> Inl ReadOfNull
      | Some JNull \<Rightarrow> Inl ReadOfNull
      | Some v \<Rightarrow> Inr (sel v))"

text \<open>
  What \<open>setHighlights\<close> can receive: an array, or a string (a non-empty string passes the
  test of line 99 as a non-empty array does). The component reads of it its \<open>length\<close> and
  its elements by index; the element of a string is the string of one code unit.
\<close>

datatype collection = Arr "json list" | Str jstring

fun coll_length :: "collection \<Rightarrow> nat" where
  "coll_length (Arr xs) = length xs"
| "coll_length (Str s) = length s"

text \<open>\<open>c[i]\<close>: \<open>undefined\<close> out of range, here \<open>None\<close>.\<close>

fun coll_index :: "collection \<Rightarrow> nat \<Rightarrow> json option" where
  "coll_index (Arr xs) i = (if i < length xs then Some (xs ! i) else None)"
| "coll_index (Str s) i = (if i < length s then Some (JStr [s ! i]) else None)"

text \<open>The two values of \<open>BLOG\<close> (blog.config) that the component reads.\<close>

record blog =
  READWISE_ENABLED :: bool
  READWISE_API_KEY :: "string option"

text \<open>
  The values that \<open>setError\<close> receives. The literals of the source are not ASCII, so each
  one is a constructor:
  \<^item> \<open>MsgNoApiKey\<close>: the literal of line 66 (no API key configured);
  \<^item> \<open>MsgNoHighlights\<close>: the literal of line 103 (no highlight found);
  \<^item> \<open>MsgRequestFailed status\<close>: the template of line 88 with \<open>response.status\<close>;
  \<^item> \<open>MsgNotJson ct\<close>: the template of line 93 with the content type received;
  \<^item> \<open>MsgThrown m\<close>: \<open>err.message\<close> of an error thrown by \<open>fetch\<close> or \<open>response.json()\<close>;
  \<^item> \<open>MsgTypeError\<close>: \<open>err.message\<close> of the \<open>TypeError\<close> thrown by reading \<open>highlights\<close> of
    \<open>null\<close> (a non-empty text chosen by the JavaScript engine).
\<close>

datatype message =
    MsgNoApiKey
  | MsgNoHighlights
  | MsgRequestFailed nat
  | MsgNotJson "string option"
  | MsgThrown string
  | MsgTypeError

text \<open>JavaScript truthiness of a string, and of \<open>null\<close>-or-string values.\<close>

definition truthy_str :: "string \<Rightarrow> bool" where
  "truthy_str s = (s \<noteq> [])"

definition truthy_key :: "string option \<Rightarrow> bool" where
  "truthy_key k = (case k of None \<Rightarrow> False | Some s \<Rightarrow> truthy_str s)"

fun truthy_message :: "message \<Rightarrow> bool" where
  "truthy_message (MsgThrown m) = truthy_str m"
| "truthy_message _ = True"

definition truthy_error :: "message option \<Rightarrow> bool" where
  "truthy_error e = (case e of None \<Rightarrow> False | Some m \<Rightarrow> truthy_message m)"

text \<open>The fields of a pointer event that the handlers read.\<close>

datatype pointer_type = Mouse | Pen | Touch

record pointer_event =
  pointerType :: pointer_type
  button :: int
  clientX :: int
  clientY :: int

definition clientXY :: "pointer_event \<Rightarrow> point" where
  "clientXY e = (clientX e, clientY e)"

text \<open>
  The value of \<open>data.highlights\<close> when \<open>data\<close> is an object that has the member: any JSON
  value. Of an object only one thing matters here, that it has no member \<open>length\<close>, so
  that \<open>length > 0\<close> is false; an object with a member \<open>length\<close> of its own is the one shape
  of payload that this type leaves out.
\<close>

datatype hvalue =
    HNull
  | HBool bool
  | HNum jnum
  | HStr jstring
  | HArr "json list"
  | HObject

text \<open>
  What \<open>response.json()\<close> resolves to: any JSON value; an object is given by its member
  \<open>highlights\<close>, \<open>None\<close> when it has none.
\<close>

datatype payload =
    PNull
  | PBool bool
  | PNum jnum
  | PStr jstring
  | PArr "json list"
  | PObj "hvalue option"

text \<open>
  What the awaited \<open>fetch\<close> can produce: a rejection (network failure) with its message, or
  a response with a status, a \<open>content-type\<close> header (\<open>null\<close> when absent) and a body that
  \<open>response.json()\<close> either fails to parse or parses to a payload.
\<close>

datatype body = ParseError string | Parsed payload

record response =
  status :: nat
  contentType :: "string option"
  json :: body

datatype fetch_outcome = Rejected string | Responded response

text \<open>\<open>response.ok\<close>: the status is in the range 200 to 299.\<close>

definition response_ok :: "response \<Rightarrow> bool" where
  "response_ok r = (200 \<le> status r \<and> status r \<le> 299)"

text \<open>\<open>hay.includes(needle)\<close>: the needle occurs as a contiguous substring.\<close>

fun str_includes :: "string \<Rightarrow> string \<Rightarrow> bool" where
  "str_includes [] needle = (needle = [])"
| "str_includes (c # cs) needle =
     (take (length needle) (c # cs) = needle \<or> str_includes cs needle)"

text \<open>The negation of the test of line 92.\<close>

definition contentType_ok :: "string option \<Rightarrow> bool" where
  "contentType_ok ct =
     (case ct of None \<Rightarrow> False
      | Some t \<Rightarrow> truthy_str t \<and> str_includes t ''application/json'')"

text \<open>
  \<open>data.highlights\<close>: a \<open>TypeError\<close> when \<open>data\<close> is \<open>null\<close>; \<open>undefined\<close> (\<open>None\<close>) when \<open>data\<close> is a
  boolean, a number, a string or an array, none of which has such a property, or an
  object without the member.
\<close>

fun read_highlights :: "payload \<Rightarrow> message + hvalue option" where
  "read_highlights PNull = Inl MsgTypeError"
| "read_highlights (PObj m) = Inr m"
| "read_highlights p = Inr None"

text \<open>
  The test \<open>data.highlights && data.highlights.length > 0\<close> of line 99, with the value that
  \<open>setHighlights\<close> then receives: \<open>None\<close> when the test fails. \<open>undefined\<close>, \<open>null\<close>, \<open>false\<close>, 0 and
  the empty string are falsy; \<open>true\<close>, a number and an object without \<open>length\<close> are truthy
  but their \<open>length\<close> is \<open>undefined\<close>, and \<open>undefined > 0\<close> is false.
\<close>

fun storable :: "hvalue option \<Rightarrow> collection option" where
  "storable None = None"
| "storable (Some HNull) = None"
| "storable (Some (HBool b)) = None"
| "storable (Some (HNum n)) = None"
| "storable (Some (HStr s)) = (if s \<noteq> [] \<and> length s > 0 then Some (Str s) else None)"
| "storable (Some (HArr xs)) = (if length xs > 0 then Some (Arr xs) else None)"
| "storable (Some HObject) = None"

text \<open>
  The value of \<open>Math.random()\<close>: a double that is at least 0 and less than 1. Every such
  double is \<open>m / 2 ^ e\<close> for natural numbers \<open>m < 2 ^ 53\<close> and \<open>e \<le> 1074\<close> with \<open>m < 2 ^ e\<close>, and
  every such quotient is a double.
\<close>

record jsrandom =
  r_mant :: nat
  r_expo :: nat


text \<open>The number of binary digits of a natural number.\<close>

fun bits :: "nat \<Rightarrow> nat" where
  "bits n = (if n = 0 then 0 else Suc (bits (n div 2)))"

declare bits.simps [simp del]

text \<open>\<open>a / 2 ^ k\<close> rounded to the nearest natural number, a tie to the even one.\<close>

definition round_half_even :: "nat \<Rightarrow> nat \<Rightarrow> nat" where
  "round_half_even a k =
     (let q = a div 2 ^ k; r = a mod 2 ^ k
      in if 2 * r < 2 ^ k then q
         else if 2 * r > 2 ^ k then q + 1
         else if even q then q else q + 1)"

text \<open>
  The double nearest to \<open>a / 2 ^ e\<close> (ties to even), as its numerator over \<open>2 ^ e\<close>, for
  \<open>e \<le> 1074\<close>: a numerator of at most 53 binary digits is a double as it is; a longer one
  keeps its 53 leading digits, rounded. This is the product of two doubles \<open>m / 2 ^ e\<close> and
  \<open>n\<close> as the \<open>*\<close> of JavaScript computes it, with \<open>a = m * n\<close>.
\<close>

definition round53 :: "nat \<Rightarrow> nat" where
  "round53 a =
     (if a < 2 ^ 53 then a
      else let k = bits a - 53 in round_half_even a k * 2 ^ k)"

text \<open>
  \<open>Math.floor(r * n)\<close> for the double \<open>r\<close> and a length \<open>n\<close> (a length is below \<open>2 ^ 53\<close> and so a
  double as it is).
\<close>

definition floor_product :: "jsrandom \<Rightarrow> nat \<Rightarrow> nat" where
  "floor_product r n = round53 (r_mant r * n) div 2 ^ r_expo r"

subsection \<open>State\<close>

text \<open>
  The first ten fields are the hooks of lines 11 to 31, under their names. The others are
  what the component has done to its environment:
  \<^item> \<open>routeListener\<close>: \<open>handleRouteChange\<close> is registered on \<open>router.events\<close>;
  \<^item> \<open>windowListeners\<close>: the \<open>handlePointerMove\<close>/\<open>handlePointerUp\<close> closures registered on
    \<open>window\<close>, given by the values of \<open>isDragging\<close> and \<open>dragOffset\<close> that the closure
    captured in the render that created it;
  \<^item> \<open>frames\<close>: the animation-frame callbacks requested and neither run nor cancelled, each
    with its id and the pointer position and drag offset that its closure captured;
  \<^item> \<open>frameCounter\<close>: the last id that \<open>requestAnimationFrame\<close> returned (ids start at 1);
  \<^item> \<open>inFlight\<close>, \<open>issued\<close>: the fetch requests outstanding, and issued so far;
  \<^item> \<open>unmounted\<close>: React has torn the instance down (no source variable records this).
\<close>

record modal =
  mounted :: bool
  highlights :: collection
  currentIndex :: nat
  isVisible :: bool
  loading :: bool
  error :: "message option"
  position :: point
  isDragging :: bool
  dragOffset :: point
  dragAnimationFrameRef :: "nat option"
  routeListener :: bool
  windowListeners :: "(bool \<times> point) option"
  frames :: "(nat \<times> point \<times> point) list"
  frameCounter :: nat
  inFlight :: nat
  issued :: nat
  unmounted :: bool

text \<open>The state of the first render, before any effect has run (the \<open>useState\<close> defaults).\<close>

definition init :: modal where
  "init = \<lparr> mounted = False, highlights = Arr [], currentIndex = 0, isVisible = True,
            loading = True, error = None, position = (0, 0), isDragging = False,
            dragOffset = (0, 0), dragAnimationFrameRef = None, routeListener = False,
            windowListeners = None, frames = [], frameCounter = 0, inFlight = 0,
            issued = 0, unmounted = False \<rparr>"

subsection \<open>Animation frames\<close>

definition cancelAnimationFrame :: "nat \<Rightarrow> modal \<Rightarrow> modal" where
  "cancelAnimationFrame i s = s\<lparr>frames := filter (\<lambda>cb. fst cb \<noteq> i) (frames s)\<rparr>"

definition requestAnimationFrame :: "point \<times> point \<Rightarrow> modal \<Rightarrow> nat \<times> modal" where
  "requestAnimationFrame cb s =
     (let i = frameCounter s + 1
      in (i, s\<lparr>frames := frames s @ [(i, cb)], frameCounter := i\<rparr>))"

text \<open>
  \<open>if (dragAnimationFrameRef.current) cancelAnimationFrame(dragAnimationFrameRef.current)\<close>:
  the test is truthiness, so \<open>null\<close> and the number 0 both skip the call.
\<close>

definition cancelPendingFrame :: "modal \<Rightarrow> modal" where
  "cancelPendingFrame s =
     (case dragAnimationFrameRef s of
        None \<Rightarrow> s
      | Some i \<Rightarrow> if i \<noteq> 0 then cancelAnimationFrame i s else s)"

text \<open>The callback of lines 155 to 159, run when its frame fires.\<close>

definition frameCallback :: "point \<times> point \<Rightarrow> modal \<Rightarrow> modal" where
  "frameCallback cb s = s\<lparr>position := psub (fst cb) (snd cb)\<rparr>"

subsection \<open>Fetching (lines 64 to 111)\<close>

text \<open>
  The part of \<open>fetchAllHighlights\<close> before its first \<open>await\<close>: the early return without an
  API key, or the call of \<open>fetch\<close>. It runs inside the mount effect, on a mounted instance.
\<close>

definition fetchAllHighlights :: "blog \<Rightarrow> modal \<Rightarrow> modal" where
  "fetchAllHighlights cfg s =
     (if \<not> truthy_key (READWISE_API_KEY cfg)
      then s\<lparr>error := Some MsgNoApiKey, loading := False\<rparr>
      else s\<lparr>loading := True, error := None,
             inFlight := inFlight s + 1, issued := issued s + 1\<rparr>)"

text \<open>
  A state setter called from the continuation of the fetch. React applies the update to a
  mounted instance and ignores it on an unmounted one; the source adds no test of its own.
\<close>

definition whenMounted :: "(modal \<Rightarrow> modal) \<Rightarrow> modal \<Rightarrow> modal" where
  "whenMounted f s = (if unmounted s then s else f s)"

definition setHighlights :: "collection \<Rightarrow> modal \<Rightarrow> modal" where
  "setHighlights c = whenMounted (\<lambda>s. s\<lparr>highlights := c\<rparr>)"

definition setCurrentIndex :: "nat \<Rightarrow> modal \<Rightarrow> modal" where
  "setCurrentIndex i = whenMounted (\<lambda>s. s\<lparr>currentIndex := i\<rparr>)"

definition setError :: "message option \<Rightarrow> modal \<Rightarrow> modal" where
  "setError e = whenMounted (\<lambda>s. s\<lparr>error := e\<rparr>)"

definition setLoading :: "bool \<Rightarrow> modal \<Rightarrow> modal" where
  "setLoading b = whenMounted (\<lambda>s. s\<lparr>loading := b\<rparr>)"

text \<open>
  The rest of the \<open>try\<close> block, from the value that \<open>fetch\<close> settles with: \<open>Inl m\<close> is an
  error thrown with message \<open>m\<close>, \<open>Inr s'\<close> the state when the block ends normally.
\<close>

definition fetchTry :: "fetch_outcome \<Rightarrow> modal \<Rightarrow> message + modal" where
  "fetchTry out s =
     (case out of
        Rejected m \<Rightarrow> Inl (MsgThrown m)
      | Responded r \<Rightarrow>
          if \<not> response_ok r then Inl (MsgRequestFailed (status r))
          else if \<not> contentType_ok (contentType r) then Inl (MsgNotJson (contentType r))
          else (case json r of
                  ParseError m \<Rightarrow> Inl (MsgThrown m)
                | Parsed data \<Rightarrow>
                    (case read_highlights data of
                       Inl m \<Rightarrow> Inl m
                     | Inr h \<Rightarrow>
                         (case storable h of
                            Some c \<Rightarrow> Inr (setCurrentIndex 0 (setHighlights c s))
                          | None \<Rightarrow> Inr (setError (Some MsgNoHighlights) s)))))"

text \<open>The continuation after the \<open>await\<close>: \<open>try\<close>, \<open>catch\<close>, \<open>finally\<close>.\<close>

definition fetchSettled :: "fetch_outcome \<Rightarrow> modal \<Rightarrow> modal" where
  "fetchSettled out s =
     (let s1 = (case fetchTry out s of
                  Inl m \<Rightarrow> setError (Some m) s
                | Inr s' \<Rightarrow> s')
      in setLoading False s1)"

subsection \<open>Choosing the item (lines 116 to 130)\<close>

text \<open>
  \<open>refreshHighlight\<close>, given the double \<open>r\<close> that \<open>Math.random()\<close> returns. The guard of line 117
  is true exactly for a collection of length 0 (the empty array; an empty string is
  falsy and has length 0).
\<close>

definition refreshHighlight :: "jsrandom \<Rightarrow> modal \<Rightarrow> modal" where
  "refreshHighlight r s =
     (if coll_length (highlights s) = 0 then s
      else s\<lparr>currentIndex := floor_product r (coll_length (highlights s))\<rparr>)"

text \<open>
  \<open>highlights[currentIndex] || null\<close>: the element when there is one and it is truthy,
  \<open>null\<close> (here \<open>None\<close>) when the index is out of range or the element is falsy.
\<close>

definition highlight_of :: "modal \<Rightarrow> json option" where
  "highlight_of s =
     (case coll_index (highlights s) (currentIndex s) of
        None \<Rightarrow> None
      | Some x \<Rightarrow> if truthy x then Some x else None)"

subsection \<open>Dragging (lines 135 to 186)\<close>

definition pointerAccepted :: "pointer_event \<Rightarrow> bool" where
  "pointerAccepted e = (\<not> (pointerType e = Mouse \<and> button e \<noteq> 0))"

definition handlePointerDown :: "pointer_event \<Rightarrow> modal \<Rightarrow> modal" where
  "handlePointerDown e s =
     (if pointerType e = Mouse \<and> button e \<noteq> 0 then s
      else s\<lparr>isDragging := True,
             dragOffset := (clientX e - fst (position s), clientY e - snd (position s))\<rparr>)"

text \<open>
  \<open>handlePointerMove\<close> is the closure that was registered on \<open>window\<close>: \<open>cap\<close> holds the
  \<open>isDragging\<close> and \<open>dragOffset\<close> of the render that created it. The frame callback it
  requests closes over the event and over that same \<open>dragOffset\<close>.
\<close>

definition handlePointerMove :: "bool \<times> point \<Rightarrow> pointer_event \<Rightarrow> modal \<Rightarrow> modal" where
  "handlePointerMove cap e s =
     (if \<not> fst cap then s
      else let s1 = cancelPendingFrame s;
               (i, s2) = requestAnimationFrame (clientXY e, snd cap) s1
           in s2\<lparr>dragAnimationFrameRef := Some i\<rparr>)"

definition handlePointerUp :: "modal \<Rightarrow> modal" where
  "handlePointerUp s = s\<lparr>isDragging := False\<rparr>"

text \<open>
  The effect of lines 167 to 186. Its cleanup removes the closures that its own run
  registered, which are the only ones that can be registered, and cancels the frame.
  Its body registers the closures of the current render when dragging; otherwise it
  removes them, which changes nothing since they were never registered, and cancels
  the frame.
\<close>

definition dragEffectCleanup :: "modal \<Rightarrow> modal" where
  "dragEffectCleanup s = cancelPendingFrame (s\<lparr>windowListeners := None\<rparr>)"

definition dragEffect :: "modal \<Rightarrow> modal" where
  "dragEffect s =
     (if isDragging s then s\<lparr>windowListeners := Some (isDragging s, dragOffset s)\<rparr>
      else cancelPendingFrame s)"

text \<open>A commit in which \<open>isDragging\<close> or \<open>dragOffset\<close> changed: cleanup, then the body.\<close>

definition rerunDragEffect :: "modal \<Rightarrow> modal" where
  "rerunDragEffect s = dragEffect (dragEffectCleanup s)"

subsection \<open>Mounting, rendering, unmounting\<close>

text \<open>
  The effects after the first render, in source order: the router listener (lines 36 to
  44), the mount effect (lines 49 to 61) and the drag effect.
\<close>

definition mountEffects :: "blog \<Rightarrow> modal \<Rightarrow> modal" where
  "mountEffects cfg s =
     (let s1 = s\<lparr>routeListener := True\<rparr>;
          s2 = s1\<lparr>mounted := True\<rparr>;
          s3 = (if READWISE_ENABLED cfg then fetchAllHighlights cfg s2 else s2)
      in dragEffect s3)"

text \<open>
  The cleanups of the effects: the router listener and the drag effect have one, the mount
  effect has none.
\<close>

definition cleanupEffects :: "modal \<Rightarrow> modal" where
  "cleanupEffects s = dragEffectCleanup (s\<lparr>routeListener := False\<rparr>)"

text \<open>
  The highlight block of lines 261 to 273. \<open>Inr None\<close>: the block is not rendered;
  \<open>Inr (Some b)\<close>: it is, from the three members read of the item; \<open>Inl e\<close>: reading a member
  threw, which aborts the render. The title is the member when truthy and the literal of
  line 268 otherwise; the author suffix is built when the member is truthy, and the
  falsy member itself stands in its place otherwise.
\<close>

datatype title_shown = TitleValue json | TitleDefault

datatype author_shown = AuthorSuffix json | AuthorFalsy "json option"

record block =
  b_text :: "json option"
  b_title :: title_shown
  b_author :: author_shown

definition shown_title :: "json option \<Rightarrow> title_shown" where
  "shown_title v = (case v of None \<Rightarrow> TitleDefault
                    | Some x \<Rightarrow> if truthy x then TitleValue x else TitleDefault)"

definition shown_author :: "json option \<Rightarrow> author_shown" where
  "shown_author v = (case v of None \<Rightarrow> AuthorFalsy None
                     | Some x \<Rightarrow> if truthy x then AuthorSuffix x else AuthorFalsy (Some x))"

definition highlightBlock :: "modal \<Rightarrow> read_error + block option" where
  "highlightBlock s =
     (let highlight = highlight_of s
      in if \<not> loading s \<and> \<not> truthy_error (error s) \<and> highlight \<noteq> None
         then (case get_member highlight member_text of
                 Inl e \<Rightarrow> Inl e
               | Inr t \<Rightarrow>
                   (case get_member highlight member_title of
                      Inl e \<Rightarrow> Inl e
                    | Inr ti \<Rightarrow>
                        (case get_member highlight member_author of
                           Inl e \<Rightarrow> Inl e
                         | Inr a \<Rightarrow>
                             Inr (Some \<lparr> b_text = t, b_title = shown_title ti,
                                         b_author = shown_author a \<rparr>))))
         else Inr None)"

text \<open>
  What the component returns: \<open>None\<close> for \<open>null\<close> (line 190), otherwise the parts of the
  element that depend on the state: the translation, the cursor, the spinner, the error
  text and the highlight block.
\<close>

record view =
  v_translate :: point
  v_grabbing :: bool
  v_spinner :: bool
  v_error :: "message option"
  v_highlight :: "read_error + block option"

definition render :: "blog \<Rightarrow> modal \<Rightarrow> view option" where
  "render cfg s =
     (if \<not> mounted s \<or> \<not> READWISE_ENABLED cfg \<or> \<not> isVisible s then None
      else Some \<lparr> v_translate = position s,
                  v_grabbing = isDragging s,
                  v_spinner = loading s,
                  v_error = (if truthy_error (error s) then error s else None),
                  v_highlight = highlightBlock s \<rparr>)"

text \<open>The element is in the document: its \<open>onPointerDown\<close> and its buttons can be used.\<close>

definition rendered :: "blog \<Rightarrow> modal \<Rightarrow> bool" where
  "rendered cfg s = (\<not> unmounted s \<and> render cfg s \<noteq> None)"

text \<open>Teardown: React runs the cleanup of every effect.\<close>

definition unmount :: "modal \<Rightarrow> modal" where
  "unmount s = (cleanupEffects s)\<lparr>unmounted := True\<rparr>"

subsection \<open>Events\<close>

text \<open>
  \<open>Remount\<close> is React running the cleanups and then the effects once more on the same
  instance, with its state kept: what strict mode does right after the first mount, and
  what a development reload of the module does later.
\<close>

datatype event =
    PointerDown pointer_event
  | PointerMove pointer_event
  | PointerUp
  | Frame
  | RouteChangeStart
  | CloseClick
  | RefreshClick jsrandom
  | FetchSettled fetch_outcome
  | Unmount
  | Remount

text \<open>When the animation frame fires, every pending callback runs once, in request order.\<close>

definition runFrame :: "modal \<Rightarrow> modal" where
  "runFrame s = foldl (\<lambda>t cb. frameCallback (snd cb) t) (s\<lparr>frames := []\<rparr>) (frames s)"

text \<open>
  One event, processed to completion. An event reaches a handler only where the source
  has registered it: pointer-down and the two buttons on the rendered element, pointer
  move and up on \<open>window\<close> while the listeners are registered, the route change while the
  router listener is registered, the fetch continuation when a fetch is outstanding.
\<close>

fun step :: "blog \<Rightarrow> modal \<Rightarrow> event \<Rightarrow> modal" where
  "step cfg s (PointerDown e) =
     (if rendered cfg s
      then (let s' = handlePointerDown e s
            in if pointerAccepted e then rerunDragEffect s' else s')
      else s)"
| "step cfg s (PointerMove e) =
     (case windowListeners s of
        None \<Rightarrow> s
      | Some cap \<Rightarrow> handlePointerMove cap e s)"
| "step cfg s PointerUp =
     (case windowListeners s of
        None \<Rightarrow> s
      | Some cap \<Rightarrow>
          (let s' = handlePointerUp s
           in if isDragging s \<noteq> isDragging s' then rerunDragEffect s' else s'))"
| "step cfg s Frame = runFrame s"
| "step cfg s RouteChangeStart =
     (if routeListener s then s\<lparr>isVisible := False\<rparr> else s)"
| "step cfg s CloseClick =
     (if rendered cfg s then s\<lparr>isVisible := False\<rparr> else s)"
| "step cfg s (RefreshClick r) =
     (if rendered cfg s then refreshHighlight r s else s)"
| "step cfg s (FetchSettled out) =
     (if inFlight s > 0 then fetchSettled out (s\<lparr>inFlight := inFlight s - 1\<rparr>) else s)"
| "step cfg s Unmount = (if unmounted s then s else unmount s)"
| "step cfg s Remount =
     (if unmounted s then s else mountEffects cfg (cleanupEffects s))"

text \<open>The component after mounting and a sequence of events.\<close>

definition mounted_init :: "blog \<Rightarrow> modal" where
  "mounted_init cfg = mountEffects cfg init"

definition run :: "blog \<Rightarrow> event list \<Rightarrow> modal" where
  "run cfg evs = foldl (step cfg) (mounted_init cfg) evs"

subsection \<open>Traces\<close>

text \<open>
  The events that neither start nor end a gesture nor tear the component down.
\<close>

fun gesture_event :: "event \<Rightarrow> bool" where
  "gesture_event (PointerDown e) = False"
| "gesture_event PointerUp = False"
| "gesture_event Unmount = False"
| "gesture_event ev = True"

text \<open>
  The pointer position of the last pointer-move that no frame has followed yet, if any,
  read off a sequence of events. Running the effects again cancels the pending frame.
\<close>

fun pendingMove :: "point option \<Rightarrow> event \<Rightarrow> point option" where
  "pendingMove p (PointerMove e) = Some (clientXY e)"
| "pendingMove p Frame = None"
| "pendingMove p Remount = None"
| "pendingMove p ev = p"

fun is_PointerDown :: "event \<Rightarrow> bool" where
  "is_PointerDown (PointerDown e) = True"
| "is_PointerDown ev = False"

text \<open>
  How often the effects run again in a sequence of events: the \<open>Remount\<close> events before
  the first teardown (none has an effect after it).
\<close>

fun remounts :: "event list \<Rightarrow> nat" where
  "remounts [] = 0"
| "remounts (Unmount # evs) = 0"
| "remounts (Remount # evs) = Suc (remounts evs)"
| "remounts (ev # evs) = remounts evs"


subsection \<open>Concrete inputs\<close>

definition scenario_cfg :: blog where
  "scenario_cfg = \<lparr> READWISE_ENABLED = True, READWISE_API_KEY = Some ''X'' \<rparr>"

definition no_key_cfg :: blog where
  "no_key_cfg = \<lparr> READWISE_ENABLED = True, READWISE_API_KEY = None \<rparr>"

text \<open>A press or move of the primary mouse button at a given point.\<close>

definition pointer_at :: "int \<Rightarrow> int \<Rightarrow> pointer_event" where
  "pointer_at px py = \<lparr> pointerType = Mouse, button = 0, clientX = px, clientY = py \<rparr>"

text \<open>The items \<open>{ text: "A" }\<close> and \<open>{ text: "B" }\<close> (65 and 66 are the code units).\<close>

definition item_A :: json where
  "item_A = JObj (Some (JStr [65])) None None"


text \<open>A response with status 200 and a JSON content type.\<close>

definition json_response :: "payload \<Rightarrow> response" where
  "json_response data =
     \<lparr> status = 200, contentType = Some ''application/json'', json = Parsed data \<rparr>"

text \<open>The body \<open>{ highlights: [...] }\<close>.\<close>

definition items_response :: "json list \<Rightarrow> response" where
  "items_response xs = json_response (PObj (Some (HArr xs)))"

text \<open>The doubles 0.5 and 0.75.\<close>

definition half :: jsrandom where
  "half = \<lparr> r_mant = 1, r_expo = 1 \<rparr>"

definition three_quarters :: jsrandom where
  "three_quarters = \<lparr> r_mant = 3, r_expo = 2 \<rparr>"


subsection \<open>Invariants of the reachable states\<close>

text \<open>
  At most one frame callback is pending; it is the one whose id the ref holds, it captured
  the current drag offset, and the listeners are registered. The registered closures
  captured the current values, and they are registered exactly while dragging on a live
  instance.
\<close>

definition drag_inv :: "modal \<Rightarrow> bool" where
  "drag_inv s =
     (length (frames s) \<le> 1 \<and>
      (\<forall>cb \<in> set (frames s).
          dragAnimationFrameRef s = Some (fst cb) \<and> fst cb \<noteq> 0 \<and>
          snd (snd cb) = dragOffset s \<and> windowListeners s \<noteq> None) \<and>
      (\<forall>cap. windowListeners s = Some cap \<longrightarrow>
          cap = (True, dragOffset s) \<and> isDragging s \<and> \<not> unmounted s) \<and>
      (isDragging s \<and> \<not> unmounted s \<longrightarrow> windowListeners s \<noteq> None))"

text \<open>
  No more requests are outstanding than were issued, and as long as none has been
  answered nothing is stored.
\<close>

definition fetch_inv :: "modal \<Rightarrow> bool" where
  "fetch_inv s =
     (inFlight s \<le> issued s \<and> (inFlight s = issued s \<longrightarrow> highlights s = Arr []))"


definition route_inv :: "modal \<Rightarrow> bool" where
  "route_inv s = (mounted s \<and> routeListener s = (\<not> unmounted s))"

text \<open>Inside a gesture with anchor \<open>a\<close>, with \<open>p\<close> the pending pointer position.\<close>

definition gesture_inv :: "point \<Rightarrow> point option \<Rightarrow> modal \<Rightarrow> bool" where
  "gesture_inv a p s =
     (drag_inv s \<and> isDragging s \<and> \<not> unmounted s \<and> dragOffset s = a \<and>
      (case p of None \<Rightarrow> frames s = []
       | Some q \<Rightarrow> map snd (frames s) = [(q, a)]))"

text \<open>No gesture is under way.\<close>

definition idle :: "modal \<Rightarrow> bool" where
  "idle s = (drag_inv s \<and> \<not> isDragging s)"

text \<open>The state after an activation without an API key.\<close>

definition no_key_inv :: "modal \<Rightarrow> bool" where
  "no_key_inv s =
     (error s = Some MsgNoApiKey \<and> \<not> loading s \<and> issued s = 0 \<and> inFlight s = 0)"

text \<open>Torn down: nothing is registered or pending any more.\<close>

definition torn_down :: "modal \<Rightarrow> bool" where
  "torn_down s =
     (unmounted s \<and> \<not> routeListener s \<and> windowListeners s = None \<and> frames s = [])"

section \<open>Auxiliary facts\<close>

subsection \<open>Frames and handlers\<close>

lemma foldl_frameCallback:
  "foldl (\<lambda>t cb. frameCallback (snd cb) t) s cbs =
     (if cbs = [] then s
      else s\<lparr>position := psub (fst (snd (last cbs))) (snd (snd (last cbs)))\<rparr>)"
  by (induction cbs rule: rev_induct) (simp_all add: frameCallback_def)

lemma runFrame_alt:
  "runFrame s =
     (if frames s = [] then s
      else s\<lparr>frames := [],
             position := psub (fst (snd (last (frames s)))) (snd (snd (last (frames s))))\<rparr>)"
  by (simp add: runFrame_def foldl_frameCallback)

lemmas setter_defs =
  whenMounted_def setHighlights_def setCurrentIndex_def setError_def setLoading_def

lemmas handler_defs =
  handlePointerDown_def rerunDragEffect_def dragEffect_def dragEffectCleanup_def
  cancelPendingFrame_def cancelAnimationFrame_def pointerAccepted_def Let_def
  handlePointerMove_def requestAnimationFrame_def handlePointerUp_def runFrame_alt
  refreshHighlight_def fetchSettled_def fetchTry_def unmount_def cleanupEffects_def
  mountEffects_def fetchAllHighlights_def setter_defs

lemmas eval_defs =
  run_def mounted_init_def init_def scenario_cfg_def no_key_cfg_def
  truthy_key_def truthy_str_def rendered_def render_def
  pointer_at_def clientXY_def psub_def json_response_def items_response_def
  response_ok_def contentType_ok_def handler_defs

lemma mounted_init_simps:
  "mounted_init cfg =
     (if READWISE_ENABLED cfg
      then fetchAllHighlights cfg (init\<lparr>routeListener := True, mounted := True\<rparr>)
      else init\<lparr>routeListener := True, mounted := True\<rparr>)"
  by (simp add: mounted_init_def mountEffects_def init_def dragEffect_def
      fetchAllHighlights_def cancelPendingFrame_def Let_def)

lemma foldl_step_inv:
  assumes "P s" and "\<And>t ev. P t \<Longrightarrow> P (step cfg t ev)"
  shows "P (foldl (step cfg) s evs)"
  using assms(1) by (induction evs arbitrary: s) (simp_all add: assms(2))

lemmas step_splits =
  option.splits if_splits fetch_outcome.splits body.splits sum.splits prod.splits

lemma position_step:
  "ev \<noteq> Frame \<Longrightarrow> position (step cfg s ev) = position s"
  by (cases ev) (auto simp: handler_defs split: step_splits)

lemma isDragging_step:
  "\<not> is_PointerDown ev \<Longrightarrow> \<not> isDragging s \<Longrightarrow> \<not> isDragging (step cfg s ev)"
  by (cases ev) (auto simp: handler_defs split: step_splits)

lemma isVisible_step: "\<not> isVisible s \<Longrightarrow> \<not> isVisible (step cfg s ev)"
  by (cases ev) (auto simp: handler_defs split: step_splits)

lemma isVisible_other:
  "ev \<noteq> CloseClick \<Longrightarrow> ev \<noteq> RouteChangeStart \<Longrightarrow> isVisible (step cfg s ev) = isVisible s"
  by (cases ev) (auto simp: handler_defs split: step_splits)


lemma unmounted_other: "ev \<noteq> Unmount \<Longrightarrow> unmounted (step cfg s ev) = unmounted s"
  by (cases ev) (auto simp: handler_defs split: step_splits)

subsection \<open>The invariants hold in every reachable state\<close>

lemma drag_inv_init: "drag_inv (mounted_init cfg)"
  by (simp add: drag_inv_def mounted_init_simps init_def fetchAllHighlights_def)

lemma fetch_inv_init: "fetch_inv (mounted_init cfg)"
  by (simp add: fetch_inv_def mounted_init_simps init_def fetchAllHighlights_def)


lemma route_inv_init: "route_inv (mounted_init cfg)"
  by (simp add: mounted_init_simps route_inv_def fetchAllHighlights_def init_def)

lemma fetch_inv_step: "fetch_inv s \<Longrightarrow> fetch_inv (step cfg s ev)"
  by (cases ev) (auto simp: fetch_inv_def handler_defs split: step_splits)

lemma route_inv_step: "route_inv s \<Longrightarrow> route_inv (step cfg s ev)"
  by (cases ev) (auto simp: route_inv_def handler_defs split: step_splits)

lemma no_key_inv_step:
  "\<not> truthy_key (READWISE_API_KEY cfg) \<Longrightarrow> no_key_inv s \<Longrightarrow> no_key_inv (step cfg s ev)"
  by (cases ev) (auto simp: no_key_inv_def handler_defs split: step_splits)



lemma drag_inv_step:
  assumes "drag_inv s"
  shows "drag_inv (step cfg s ev)"
proof (cases ev)
  case (PointerDown e)
  with assms show ?thesis
    by (cases "frames s")
       (auto simp: drag_inv_def handler_defs rendered_def split: option.splits if_splits)
next
  case (PointerMove e)
  with assms show ?thesis
    by (cases "frames s")
       (auto simp: drag_inv_def handler_defs split: option.splits if_splits)
next
  case PointerUp
  with assms show ?thesis
    by (cases "frames s")
       (auto simp: drag_inv_def handler_defs split: option.splits if_splits)
next
  case Frame
  with assms show ?thesis
    by (auto simp: drag_inv_def handler_defs)
next
  case RouteChangeStart
  with assms show ?thesis
    by (auto simp: drag_inv_def)
next
  case CloseClick
  with assms show ?thesis
    by (auto simp: drag_inv_def)
next
  case (RefreshClick r)
  with assms show ?thesis
    by (auto simp: drag_inv_def handler_defs)
next
  case (FetchSettled out)
  with assms show ?thesis
    by (auto simp: drag_inv_def handler_defs split: step_splits)
next
  case Unmount
  with assms show ?thesis
    by (cases "frames s")
       (auto simp: drag_inv_def handler_defs split: option.splits if_splits)
next
  case Remount
  with assms show ?thesis
    by (cases "frames s")
       (auto simp: drag_inv_def handler_defs split: option.splits if_splits)
qed

lemma drag_inv_run: "drag_inv (run cfg evs)"
  unfolding run_def by (rule foldl_step_inv) (simp_all add: drag_inv_init drag_inv_step)

lemma fetch_inv_run: "fetch_inv (run cfg evs)"
  unfolding run_def by (rule foldl_step_inv) (simp_all add: fetch_inv_init fetch_inv_step)

lemma route_inv_run: "route_inv (run cfg evs)"
  unfolding run_def by (rule foldl_step_inv) (simp_all add: route_inv_init route_inv_step)



subsection \<open>Inside a gesture\<close>

lemma pointerDown_accepted:
  assumes "drag_inv s" and "rendered cfg s" and "pointerAccepted e"
  shows "gesture_inv (psub (clientXY e) (position s)) None (step cfg s (PointerDown e))"
proof -
  have f: "frames (step cfg s (PointerDown e)) = []"
    using assms by (cases "frames s")
      (auto simp: drag_inv_def handler_defs rendered_def split: option.splits if_splits)
  have d: "drag_inv (step cfg s (PointerDown e))"
    using assms(1) by (rule drag_inv_step)
  have r: "\<not> unmounted (step cfg s (PointerDown e)) \<and>
           isDragging (step cfg s (PointerDown e)) \<and>
           dragOffset (step cfg s (PointerDown e)) = psub (clientXY e) (position s)"
    using assms(2,3)
    by (auto simp: handler_defs rendered_def psub_def clientXY_def split: option.splits)
  show ?thesis using f d r by (simp add: gesture_inv_def)
qed

lemma gesture_inv_step:
  assumes "gesture_inv a p s" and "gesture_event ev"
  shows "gesture_inv a (pendingMove p ev) (step cfg s ev)"
proof -
  have d: "drag_inv (step cfg s ev)"
    using assms(1) by (simp add: gesture_inv_def drag_inv_step)
  from assms have
    "isDragging (step cfg s ev) \<and> \<not> unmounted (step cfg s ev) \<and>
     dragOffset (step cfg s ev) = a \<and>
     (case pendingMove p ev of None \<Rightarrow> frames (step cfg s ev) = []
      | Some q \<Rightarrow> map snd (frames (step cfg s ev)) = [(q, a)])"
    by (cases ev; cases "frames s")
       (auto simp: gesture_inv_def drag_inv_def handler_defs rendered_def split: step_splits)
  with d show ?thesis by (simp add: gesture_inv_def)
qed

lemma gesture_inv_foldl:
  assumes "gesture_inv a p s" and "list_all gesture_event g"
  shows "gesture_inv a (foldl pendingMove p g) (foldl (step cfg) s g)"
  using assms by (induction g arbitrary: p s) (simp_all add: gesture_inv_step)

lemma gesture_inv_frame:
  assumes "gesture_inv a p s"
  shows "position (step cfg s Frame) = (case p of None \<Rightarrow> position s | Some q \<Rightarrow> psub q a)"
  using assms
  by (cases "frames s") (auto simp: gesture_inv_def runFrame_alt split: option.splits)

lemma tracking_gesture_inv:
  assumes "drag_inv s" and "isDragging s" and "\<not> unmounted s"
  shows "\<exists>p. gesture_inv (dragOffset s) p s"
proof (cases "frames s")
  case Nil
  then have "gesture_inv (dragOffset s) None s"
    using assms by (simp add: gesture_inv_def)
  then show ?thesis ..
next
  case (Cons cb cbs)
  then have "gesture_inv (dragOffset s) (Some (fst (snd cb))) s"
    using assms by (cases cb) (auto simp: gesture_inv_def drag_inv_def)
  then show ?thesis ..
qed

lemma pendingMove_moves:
  "ms \<noteq> [] \<Longrightarrow> foldl pendingMove p (map PointerMove ms) = Some (clientXY (last ms))"
  by (induction ms arbitrary: p) auto

lemma position_moves:
  "position (foldl (step cfg) s (map PointerMove ms)) = position s"
  by (induction ms arbitrary: s) (simp_all add: position_step del: step.simps)

subsection \<open>Outside a gesture\<close>

lemma idle_quiet: "idle s \<Longrightarrow> frames s = [] \<and> windowListeners s = None"
  by (cases "frames s"; cases "windowListeners s") (auto simp: idle_def drag_inv_def)

lemma idle_step:
  assumes "idle s" and "\<not> is_PointerDown ev"
  shows "idle (step cfg s ev) \<and> position (step cfg s ev) = position s"
proof -
  have "idle (step cfg s ev)"
    using assms by (simp add: idle_def drag_inv_step isDragging_step del: step.simps)
  moreover have "position (step cfg s ev) = position s"
  proof (cases "ev = Frame")
    case True
    then show ?thesis using idle_quiet [OF assms(1)] by (simp add: runFrame_alt)
  next
    case False
    then show ?thesis by (rule position_step)
  qed
  ultimately show ?thesis by simp
qed

lemma idle_foldl:
  assumes "idle s" and "list_all (\<lambda>ev. \<not> is_PointerDown ev) evs"
  shows "idle (foldl (step cfg) s evs) \<and> position (foldl (step cfg) s evs) = position s"
  using assms
proof (induction evs arbitrary: s)
  case Nil
  then show ?case by simp
next
  case (Cons ev evs)
  then have "idle (step cfg s ev) \<and> position (step cfg s ev) = position s"
    using idle_step by simp
  with Cons show ?case by (simp del: step.simps)
qed

text \<open>
  The pointer-up handler alone clears the flag and leaves the pending frame; the pending
  frame is cancelled by the drag effect that re-runs because the flag changed.
\<close>

lemma handlePointerUp_frames:
  "frames (handlePointerUp s) = frames s \<and> \<not> isDragging (handlePointerUp s)"
  by (simp add: handlePointerUp_def)

lemma rerunDragEffect_idle:
  assumes "drag_inv s"
  shows "frames (rerunDragEffect (handlePointerUp s)) = []"
  using assms
  by (cases "frames s")
     (auto simp: drag_inv_def handler_defs split: option.splits)

lemma pointerUp_idle:
  assumes "drag_inv s" and "\<not> unmounted s"
  shows "idle (step cfg s PointerUp)"
proof -
  have "\<not> isDragging (step cfg s PointerUp)"
    using assms by (auto simp: drag_inv_def handler_defs split: option.splits)
  then show ?thesis
    using assms(1) by (simp add: idle_def drag_inv_step del: step.simps)
qed

subsection \<open>After teardown\<close>

lemma unmounted_torn_down:
  assumes "drag_inv s" and "route_inv s" and "unmounted s"
  shows "torn_down s"
  using assms
  by (cases "frames s"; cases "windowListeners s")
     (auto simp: drag_inv_def route_inv_def torn_down_def)

lemma torn_down_step:
  assumes "torn_down s"
  shows "(step cfg s ev)\<lparr>inFlight := inFlight s\<rparr> = s \<and> torn_down (step cfg s ev)"
  using assms
  by (cases ev)
     (auto simp: torn_down_def handler_defs rendered_def split: step_splits)

lemma torn_down_foldl:
  assumes "torn_down s"
  shows "(foldl (step cfg) s evs)\<lparr>inFlight := inFlight s\<rparr> = s \<and>
         torn_down (foldl (step cfg) s evs)"
  using assms
proof (induction evs arbitrary: s)
  case Nil
  then show ?case by simp
next
  case (Cons ev evs)
  let ?u = "step cfg s ev"
  let ?t = "foldl (step cfg) ?u evs"
  have u: "?u\<lparr>inFlight := inFlight s\<rparr> = s" and d: "torn_down ?u"
    using torn_down_step [OF Cons.prems, of cfg ev] by simp_all
  have t: "?t\<lparr>inFlight := inFlight ?u\<rparr> = ?u" and d': "torn_down ?t"
    using Cons.IH [OF d] by simp_all
  have "?t\<lparr>inFlight := inFlight s\<rparr> = (?t\<lparr>inFlight := inFlight ?u\<rparr>)\<lparr>inFlight := inFlight s\<rparr>"
    by simp
  also have "\<dots> = s" using t u by simp
  finally show ?case using d' by (simp del: step.simps)
qed

lemma fetchSettled_counted:
  "0 < inFlight s \<Longrightarrow> inFlight (step cfg s (FetchSettled out)) = inFlight s - 1"
  by (auto simp: handler_defs split: step_splits)

subsection \<open>Requests\<close>

lemma issued_step:
  "issued (step cfg s ev) =
     issued s + (if ev = Remount \<and> \<not> unmounted s \<and> READWISE_ENABLED cfg \<and>
                    truthy_key (READWISE_API_KEY cfg) then 1 else 0)"
  by (cases ev) (auto simp: handler_defs split: step_splits)

lemma unmounted_step_eq: "unmounted (step cfg s ev) = (unmounted s \<or> ev = Unmount)"
  by (cases ev) (auto simp: handler_defs split: step_splits)

lemma issued_foldl:
  "issued (foldl (step cfg) s evs) =
     issued s + (if \<not> unmounted s \<and> READWISE_ENABLED cfg \<and> truthy_key (READWISE_API_KEY cfg)
                 then remounts evs else 0)"
proof (induction evs arbitrary: s)
  case Nil
  then show ?case by simp
next
  case (Cons ev evs)
  show ?case
    using Cons.IH [of "step cfg s ev"] issued_step [of cfg s ev] unmounted_step_eq [of cfg s ev]
    by (cases ev) (simp_all del: step.simps)
qed

lemma issued_init:
  "issued (mounted_init cfg) =
     (if READWISE_ENABLED cfg \<and> truthy_key (READWISE_API_KEY cfg) then 1 else 0)"
  and unmounted_init: "\<not> unmounted (mounted_init cfg)"
  by (simp_all add: mounted_init_simps fetchAllHighlights_def init_def)

subsection \<open>The random index\<close>







lemma floor_product_half: "floor_product half 2 = 1"
  and floor_product_three_quarters: "floor_product three_quarters 2 = 1"
  by (simp_all add: floor_product_def round53_def half_def three_quarters_def)


subsection \<open>Reading the item\<close>





section \<open>The claims\<close>

subsection \<open>C1: the anchor of a drag gesture\<close>

text \<open>
  Claim C1. An accepted pointer-down on the rendered overlay starts tracking and sets the
  anchor offset to the pointer position minus the overlay's position at that moment.
  Through every later event of the gesture (any events but a pointer-down, a pointer-up
  or a teardown) the anchor stays the same, no event but a frame changes the position,
  and a frame sets the position to the pointer position of the last pointer-move that is
  still pending, minus that anchor (and leaves it alone when no move is pending).
  The instance below is the scenario of the claim: down at (50,50) with the overlay at
  (0,0) gives the anchor (50,50), and a move to (80,80) gives, after the frame, (30,30).
\<close>

theorem C1_drag_anchor:
  assumes "rendered cfg (run cfg evs)" and "pointerAccepted e" and "list_all gesture_event g"
  shows "let s0 = run cfg evs;
             anchor = psub (clientXY e) (position s0);
             s1 = step cfg s0 (PointerDown e);
             s = foldl (step cfg) s1 g
         in isDragging s1 \<and> dragOffset s1 = anchor \<and>
            isDragging s \<and> dragOffset s = anchor \<and>
            (ev \<noteq> Frame \<longrightarrow> position (step cfg s ev) = position s) \<and>
            position (step cfg s Frame) =
              (case foldl pendingMove None g of
                 None \<Rightarrow> position s
               | Some p \<Rightarrow> psub p anchor)"
proof -
  let ?s0 = "run cfg evs"
  let ?a = "psub (clientXY e) (position ?s0)"
  let ?s1 = "step cfg ?s0 (PointerDown e)"
  let ?s = "foldl (step cfg) ?s1 g"
  have g1: "gesture_inv ?a None ?s1"
    using drag_inv_run assms(1,2) by (rule pointerDown_accepted)
  then have g: "gesture_inv ?a (foldl pendingMove None g) ?s"
    using assms(3) by (rule gesture_inv_foldl)
  have "position (step cfg ?s Frame) =
      (case foldl pendingMove None g of None \<Rightarrow> position ?s | Some p \<Rightarrow> psub p ?a)"
    using g by (rule gesture_inv_frame)
  moreover have "ev \<noteq> Frame \<longrightarrow> position (step cfg ?s ev) = position ?s"
    using position_step [of ev cfg ?s] by blast
  ultimately show ?thesis
    using g1 g by (simp add: gesture_inv_def Let_def del: step.simps)
qed

text \<open>
  Scenario 4 of the specification, as an instance of C1; a click on the close button
  during the gesture does not move the overlay.
\<close>

theorem C1_scenario_4:
  "rendered scenario_cfg (run scenario_cfg []) \<and>
   pointerAccepted (pointer_at 50 50) \<and>
   list_all gesture_event [PointerMove (pointer_at 80 80)] \<and>
   position (run scenario_cfg []) = (0, 0) \<and>
   dragOffset (run scenario_cfg [PointerDown (pointer_at 50 50)]) = (50, 50) \<and>
   CloseClick \<noteq> Frame \<and>
   position (run scenario_cfg
      [PointerDown (pointer_at 50 50), PointerMove (pointer_at 80 80), CloseClick]) =
   position (run scenario_cfg
      [PointerDown (pointer_at 50 50), PointerMove (pointer_at 80 80)]) \<and>
   position (run scenario_cfg
      [PointerDown (pointer_at 50 50), PointerMove (pointer_at 80 80), Frame]) = (30, 30)"
proof -
  have r: "rendered scenario_cfg (run scenario_cfg [])"
    and p: "position (run scenario_cfg []) = (0, 0)"
    by (simp_all add: eval_defs)
  have a: "pointerAccepted (pointer_at 50 50)"
    by (simp add: pointerAccepted_def pointer_at_def)
  have g: "list_all gesture_event [PointerMove (pointer_at 80 80)]" by simp
  have x: "psub (clientXY (pointer_at 50 50)) (0, 0) = (50, 50)"
       "psub (clientXY (pointer_at 80 80)) (50, 50) = (30, 30)"
    by (simp_all add: psub_def clientXY_def pointer_at_def)
  show ?thesis
    using C1_drag_anchor [OF r a g, where ev = CloseClick] r a g p x
    by (simp add: Let_def run_def del: step.simps)
qed

subsection \<open>C2: one position per frame\<close>

text \<open>
  Claim C2. While tracking, let a non-empty sequence of pointer-move events arrive with no
  frame in between. No prefix of the sequence changes the position; after the sequence
  exactly one frame callback is pending, the one requested for the last event (each move
  cancels the callback of the move before it); and when the frame fires the position is
  the last event's pointer position minus the anchor. The positions of the earlier
  events are never applied.
\<close>

theorem C2_frame_coalescing:
  assumes "isDragging (run cfg evs)" and "\<not> unmounted (run cfg evs)" and "ms \<noteq> []"
  shows "let s = run cfg evs;
             s' = foldl (step cfg) s (map PointerMove ms)
         in (\<forall>k. position (foldl (step cfg) s (map PointerMove (take k ms))) = position s) \<and>
            map snd (frames s') = [(clientXY (last ms), dragOffset s)] \<and>
            position (step cfg s' Frame) = psub (clientXY (last ms)) (dragOffset s)"
proof -
  let ?s = "run cfg evs"
  let ?s' = "foldl (step cfg) ?s (map PointerMove ms)"
  obtain p where "gesture_inv (dragOffset ?s) p ?s"
    using tracking_gesture_inv [OF drag_inv_run assms(1,2)] ..
  moreover have "list_all gesture_event (map PointerMove ms)"
    by (induction ms) simp_all
  ultimately have "gesture_inv (dragOffset ?s) (foldl pendingMove p (map PointerMove ms)) ?s'"
    by (rule gesture_inv_foldl)
  then have g: "gesture_inv (dragOffset ?s) (Some (clientXY (last ms))) ?s'"
    using assms(3) by (simp add: pendingMove_moves)
  then have "map snd (frames ?s') = [(clientXY (last ms), dragOffset ?s)]"
    by (simp add: gesture_inv_def)
  moreover have "position (step cfg ?s' Frame) = psub (clientXY (last ms)) (dragOffset ?s)"
    using gesture_inv_frame [OF g] by simp
  ultimately show ?thesis
    by (simp add: Let_def position_moves del: step.simps)
qed

text \<open>
  An instance: after the down at (50,50), moves to (60,70) and to (80,80) leave the one
  callback for (80,80), and the frame gives (30,30); (10,20) is never the position.
\<close>

theorem C2_two_moves_one_frame:
  "isDragging (run scenario_cfg [PointerDown (pointer_at 50 50)]) \<and>
   \<not> unmounted (run scenario_cfg [PointerDown (pointer_at 50 50)]) \<and>
   [pointer_at 60 70, pointer_at 80 80] \<noteq> [] \<and>
   map snd (frames (run scenario_cfg
      [PointerDown (pointer_at 50 50), PointerMove (pointer_at 60 70),
       PointerMove (pointer_at 80 80)])) = [((80, 80), (50, 50))] \<and>
   position (run scenario_cfg
      [PointerDown (pointer_at 50 50), PointerMove (pointer_at 60 70),
       PointerMove (pointer_at 80 80), Frame]) = (30, 30)"
proof -
  have d: "isDragging (run scenario_cfg [PointerDown (pointer_at 50 50)])"
    and u: "\<not> unmounted (run scenario_cfg [PointerDown (pointer_at 50 50)])"
    and off: "dragOffset (run scenario_cfg [PointerDown (pointer_at 50 50)]) = (50, 50)"
    by (simp_all add: eval_defs)
  have n: "[pointer_at 60 70, pointer_at 80 80] \<noteq> []" by simp
  have x: "clientXY (pointer_at 80 80) = (80, 80)" "psub (80, 80) (50, 50) = (30, 30)"
    by (simp_all add: psub_def clientXY_def pointer_at_def)
  show ?thesis
    using C2_frame_coalescing [OF d u n] d u off x
    by (simp add: Let_def run_def del: step.simps)
qed

subsection \<open>C3: pointer-up ends the gesture\<close>

text \<open>
  Claim C3. On a live instance, once a pointer-up has been processed (the handler of lines
  162 to 164, and the drag effect of lines 167 to 186 that re-runs because \<open>isDragging\<close>
  changed), tracking is false, no frame callback is pending and the window listeners are
  gone. A frame that fires afterwards leaves the position as it is, and so does every
  sequence of later events that contains no new pointer-down.
\<close>

theorem C3_pointer_up_cancels:
  assumes "\<not> unmounted (run cfg evs)" and "list_all (\<lambda>ev. \<not> is_PointerDown ev) later"
  shows "let s' = step cfg (run cfg evs) PointerUp;
             t = foldl (step cfg) s' later
         in \<not> isDragging s' \<and> frames s' = [] \<and> windowListeners s' = None \<and>
            position (step cfg s' Frame) = position s' \<and>
            \<not> isDragging t \<and> frames t = [] \<and> position t = position s'"
proof -
  let ?s' = "step cfg (run cfg evs) PointerUp"
  have i: "idle ?s'"
    using drag_inv_run assms(1) by (rule pointerUp_idle)
  have "position (step cfg ?s' Frame) = position ?s'"
    using idle_step [OF i, of Frame] by simp
  moreover note idle_quiet [OF i]
  moreover note idle_foldl [OF i assms(2), of cfg]
  moreover have "frames (foldl (step cfg) ?s' later) = []"
    using idle_foldl [OF i assms(2), of cfg] idle_quiet by blast
  ultimately show ?thesis
    using i by (simp add: Let_def idle_def del: step.simps)
qed

text \<open>
  An instance: the update to (30,30) is pending when the pointer goes up; it is cancelled,
  and the frame that follows leaves the overlay at (0,0).
\<close>

theorem C3_pending_frame_dropped:
  "\<not> unmounted (run scenario_cfg
      [PointerDown (pointer_at 50 50), PointerMove (pointer_at 80 80)]) \<and>
   list_all (\<lambda>ev. \<not> is_PointerDown ev) [Frame] \<and>
   map snd (frames (run scenario_cfg
      [PointerDown (pointer_at 50 50), PointerMove (pointer_at 80 80)])) =
     [((80, 80), (50, 50))] \<and>
   \<not> isDragging (run scenario_cfg
      [PointerDown (pointer_at 50 50), PointerMove (pointer_at 80 80), PointerUp]) \<and>
   frames (run scenario_cfg
      [PointerDown (pointer_at 50 50), PointerMove (pointer_at 80 80), PointerUp]) = [] \<and>
   position (run scenario_cfg
      [PointerDown (pointer_at 50 50), PointerMove (pointer_at 80 80), PointerUp, Frame]) =
     (0, 0)"
proof -
  have u: "\<not> unmounted (run scenario_cfg
      [PointerDown (pointer_at 50 50), PointerMove (pointer_at 80 80)])"
    and f: "map snd (frames (run scenario_cfg
      [PointerDown (pointer_at 50 50), PointerMove (pointer_at 80 80)])) =
        [((80, 80), (50, 50))]"
    and p: "position (run scenario_cfg
      [PointerDown (pointer_at 50 50), PointerMove (pointer_at 80 80)]) = (0, 0)"
    by (simp_all add: eval_defs)
  have l: "list_all (\<lambda>ev. \<not> is_PointerDown ev) [Frame]" by simp
  have q: "position (step scenario_cfg (run scenario_cfg
      [PointerDown (pointer_at 50 50), PointerMove (pointer_at 80 80)]) PointerUp) = (0, 0)"
    using p by (simp add: position_step del: step.simps)
  show ?thesis
    using C3_pointer_up_cancels [OF u l] u l f q
    by (simp add: Let_def run_def del: step.simps)
qed


subsection \<open>C4: choosing another item\<close>




subsection \<open>C5: no API key\<close>

text \<open>
  Claim C5. With the feature enabled and no API key (absent or empty), \<open>fetchAllHighlights\<close>
  sets the error to the missing-key message and \<open>loading\<close> to false and issues no request;
  after mounting and after any sequence of events the error is that message, \<open>loading\<close>
  is false, and no request has been issued or is outstanding.
\<close>

theorem C5_missing_key:
  assumes "READWISE_ENABLED cfg" and "\<not> truthy_key (READWISE_API_KEY cfg)"
  shows "error (fetchAllHighlights cfg t) = Some MsgNoApiKey \<and>
         \<not> loading (fetchAllHighlights cfg t) \<and>
         issued (fetchAllHighlights cfg t) = issued t \<and>
         inFlight (fetchAllHighlights cfg t) = inFlight t \<and>
         error (run cfg evs) = Some MsgNoApiKey \<and>
         \<not> loading (run cfg evs) \<and>
         issued (run cfg evs) = 0 \<and> inFlight (run cfg evs) = 0"
proof -
  have "no_key_inv (mounted_init cfg)"
    using assms by (simp add: mounted_init_simps no_key_inv_def fetchAllHighlights_def init_def)
  then have "no_key_inv (run cfg evs)"
    unfolding run_def by (rule foldl_step_inv) (rule no_key_inv_step [OF assms(2)])
  then show ?thesis
    using assms(2) by (simp add: no_key_inv_def fetchAllHighlights_def)
qed

text \<open>Scenario 1 of the specification, as an instance of C5.\<close>

theorem C5_no_key_scenario:
  "READWISE_ENABLED no_key_cfg \<and> \<not> truthy_key (READWISE_API_KEY no_key_cfg) \<and>
   error (run no_key_cfg []) = Some MsgNoApiKey \<and> \<not> loading (run no_key_cfg []) \<and>
   issued (run no_key_cfg []) = 0"
proof -
  have e: "READWISE_ENABLED no_key_cfg"
    and k: "\<not> truthy_key (READWISE_API_KEY no_key_cfg)"
    by (simp_all add: no_key_cfg_def truthy_key_def)
  show ?thesis
    using C5_missing_key [OF e k, of init "[]"] e k by simp
qed

subsection \<open>C6: an empty result\<close>

text \<open>
  Claim C6 says that a response with a success status and a JSON content type whose body
  parses, and whose \<open>highlights\<close> is empty or absent, ends in the no-highlights message. It
  does so for every payload but one: when the body parses to \<open>null\<close>, line 99 throws on
  reading \<open>data.highlights\<close>, and the \<open>catch\<close> stores the message of that \<open>TypeError\<close>. The first
  theorem is the claim as amended, on a live instance with the fetch outstanding. For
  the payload \<open>null\<close> the error is the message of the \<open>TypeError\<close>. For every other payload that
  fails the test of line 99 (no member \<open>highlights\<close>, a payload that is no object, the
  empty array, \<open>null\<close> or another falsy value, a value without positive length) the error
  is the no-highlights message, a literal of its own. In both cases \<open>loading\<close> becomes
  false and \<open>setHighlights\<close> is not called: the stored collection is what it was, which is
  the empty array as long as no earlier response has been answered. The second theorem is
  the instance that contradicts the claim as stated: status 200, JSON content type, body
  \<open>null\<close>.
\<close>

theorem C6_empty_result:
  assumes "\<not> unmounted (run cfg evs)" and "0 < inFlight (run cfg evs)"
    and "response_ok r" and "contentType_ok (contentType r)"
    and "json r = Parsed data"
    and "data = PNull \<or> (read_highlights data = Inr h \<and> storable h = None)"
  shows "let s = run cfg evs; s' = step cfg s (FetchSettled (Responded r))
         in error s' = Some (if data = PNull then MsgTypeError else MsgNoHighlights) \<and>
            \<not> loading s' \<and> highlights s' = highlights s \<and>
            (inFlight s = issued s \<longrightarrow> highlights s' = Arr [])"
proof -
  have e: "inFlight (run cfg evs) = issued (run cfg evs) \<longrightarrow> highlights (run cfg evs) = Arr []"
    using fetch_inv_run [of cfg evs] by (simp add: fetch_inv_def)
  show ?thesis
    using assms e by (auto simp: Let_def handler_defs)
qed

theorem C6_null_body:
  "response_ok (json_response PNull) \<and>
   contentType_ok (contentType (json_response PNull)) \<and>
   json (json_response PNull) = Parsed PNull \<and>
   0 < inFlight (run scenario_cfg []) \<and>
   error (run scenario_cfg [FetchSettled (Responded (json_response PNull))]) =
     Some MsgTypeError \<and>
   error (run scenario_cfg [FetchSettled (Responded (json_response PNull))]) \<noteq>
     Some MsgNoHighlights"
  by (simp add: eval_defs)

text \<open>
  Scenario 2 of the specification (the body \<open>{ highlights: [] }\<close>) as an instance of the
  amended statement, and with it the body \<open>{}\<close>, which has no member \<open>highlights\<close>, and
  the body \<open>null\<close>, which leaves the collection empty too.
\<close>

theorem C6_empty_list_scenario:
  "\<not> unmounted (run scenario_cfg []) \<and> 0 < inFlight (run scenario_cfg []) \<and>
   inFlight (run scenario_cfg []) = issued (run scenario_cfg []) \<and>
   response_ok (items_response []) \<and>
   contentType_ok (contentType (items_response [])) \<and>
   json (items_response []) = Parsed (PObj (Some (HArr []))) \<and>
   read_highlights (PObj (Some (HArr []))) = Inr (Some (HArr [])) \<and>
   storable (Some (HArr [])) = None \<and>
   error (run scenario_cfg [FetchSettled (Responded (items_response []))]) =
     Some MsgNoHighlights \<and>
   \<not> loading (run scenario_cfg [FetchSettled (Responded (items_response []))]) \<and>
   highlights (run scenario_cfg [FetchSettled (Responded (items_response []))]) = Arr [] \<and>
   read_highlights (PObj None) = Inr None \<and> storable None = None \<and>
   error (run scenario_cfg [FetchSettled (Responded (json_response (PObj None)))]) =
     Some MsgNoHighlights \<and>
   \<not> loading (run scenario_cfg [FetchSettled (Responded (json_response PNull))]) \<and>
   highlights (run scenario_cfg [FetchSettled (Responded (json_response PNull))]) = Arr []"
proof -
  have u: "\<not> unmounted (run scenario_cfg [])"
    and i: "0 < inFlight (run scenario_cfg [])"
    and q: "inFlight (run scenario_cfg []) = issued (run scenario_cfg [])"
    and e: "highlights (run scenario_cfg []) = Arr []"
    by (simp_all add: eval_defs)
  have o: "response_ok (items_response [])" "response_ok (json_response (PObj None))"
    "response_ok (json_response PNull)"
    by (simp_all add: response_ok_def json_response_def items_response_def)
  have c: "contentType_ok (contentType (items_response []))"
    "contentType_ok (contentType (json_response (PObj None)))"
    "contentType_ok (contentType (json_response PNull))"
    by (simp_all add: contentType_ok_def json_response_def items_response_def truthy_str_def)
  have j: "json (items_response []) = Parsed (PObj (Some (HArr [])))"
    "json (json_response (PObj None)) = Parsed (PObj None)"
    "json (json_response PNull) = Parsed PNull"
    by (simp_all add: json_response_def items_response_def)
  have h3: "PNull = PNull \<or> (read_highlights PNull = Inr None \<and> storable None = None)"
    by simp
  have h1: "PObj (Some (HArr [])) = PNull \<or>
      (read_highlights (PObj (Some (HArr []))) = Inr (Some (HArr [])) \<and>
       storable (Some (HArr [])) = None)"
    by simp
  have h2: "PObj None = PNull \<or> (read_highlights (PObj None) = Inr None \<and> storable None = None)"
    by simp
  show ?thesis
    using C6_empty_result [OF u i o(1) c(1) j(1) h1] C6_empty_result [OF u i o(2) c(2) j(2) h2]
      C6_empty_result [OF u i o(3) c(3) j(3) h3] u i q e o c j
    by (simp add: Let_def run_def del: step.simps)
qed

subsection \<open>C7: visibility only goes from true to false\<close>

text \<open>
  Claim C7. \<open>isVisible\<close> is true in the first render and after mounting. No event but the
  close button and the route change alters it; the close button (on the rendered
  overlay) and the route change (while the router listener is registered, which it is
  on every live instance) set it to false. Once it is false it is false after every
  sequence of later events, and the component renders nothing after each of them. The
  component renders nothing whenever it is not mounted, the feature is disabled, or
  \<open>isVisible\<close> is false.
\<close>

theorem C7_visibility_monotonic:
  "isVisible init \<and> isVisible (mounted_init cfg) \<and>
   (ev \<noteq> CloseClick \<and> ev \<noteq> RouteChangeStart \<longrightarrow> isVisible (step cfg s ev) = isVisible s) \<and>
   (rendered cfg s \<longrightarrow> \<not> isVisible (step cfg s CloseClick)) \<and>
   (routeListener s \<longrightarrow> \<not> isVisible (step cfg s RouteChangeStart)) \<and>
   (\<not> unmounted (run cfg evs) \<longrightarrow> routeListener (run cfg evs)) \<and>
   (\<not> isVisible s \<longrightarrow>
      \<not> isVisible (foldl (step cfg) s later) \<and>
      render cfg (foldl (step cfg) s later) = None) \<and>
   (\<not> mounted s \<or> \<not> READWISE_ENABLED cfg \<or> \<not> isVisible s \<longrightarrow> render cfg s = None)"
proof -
  have a: "\<not> isVisible (foldl (step cfg) s later)" if "\<not> isVisible s"
    using that by (rule foldl_step_inv) (rule isVisible_step)
  have b: "isVisible init \<and> isVisible (mounted_init cfg)"
    by (simp add: mounted_init_simps fetchAllHighlights_def init_def)
  have c: "\<not> unmounted (run cfg evs) \<longrightarrow> routeListener (run cfg evs)"
    using route_inv_run [of cfg evs] by (simp add: route_inv_def)
  have d: "ev \<noteq> CloseClick \<and> ev \<noteq> RouteChangeStart \<longrightarrow>
           isVisible (step cfg s ev) = isVisible s"
    using isVisible_other [of ev cfg s] by blast
  have e: "rendered cfg s \<longrightarrow> \<not> isVisible (step cfg s CloseClick)"
    and f: "routeListener s \<longrightarrow> \<not> isVisible (step cfg s RouteChangeStart)"
    by simp_all
  have g: "\<not> mounted s \<or> \<not> READWISE_ENABLED cfg \<or> \<not> isVisible s \<longrightarrow> render cfg s = None"
    by (auto simp: render_def)
  have h: "\<not> isVisible s \<longrightarrow> render cfg (foldl (step cfg) s later) = None"
    using a by (simp add: render_def)
  show ?thesis
    using a b c d e f g h by blast
qed

text \<open>
  An instance: the mounted overlay is visible and rendered, and a frame leaves it so; the
  close button hides it, and so does a route change; after the close, a pointer-down, a
  route change and a click on the refresh button leave it hidden, with nothing rendered;
  before mounting nothing is rendered.
\<close>

theorem C7_close_is_sticky:
  "isVisible (run scenario_cfg []) \<and>
   Frame \<noteq> CloseClick \<and> Frame \<noteq> RouteChangeStart \<and>
   isVisible (run scenario_cfg [Frame]) \<and>
   rendered scenario_cfg (run scenario_cfg []) \<and>
   routeListener (run scenario_cfg []) \<and>
   \<not> isVisible (run scenario_cfg [CloseClick]) \<and>
   \<not> isVisible (run scenario_cfg [RouteChangeStart]) \<and>
   \<not> isVisible (run scenario_cfg
      [CloseClick, PointerDown (pointer_at 50 50), RouteChangeStart, RefreshClick half]) \<and>
   render scenario_cfg (run scenario_cfg
      [CloseClick, PointerDown (pointer_at 50 50), RouteChangeStart, RefreshClick half]) = None \<and>
   \<not> mounted init \<and> render scenario_cfg init = None"
proof -
  have r: "rendered scenario_cfg (run scenario_cfg [])"
    and u: "\<not> unmounted (run scenario_cfg [])"
    and m: "\<not> mounted init"
    by (simp_all add: eval_defs)
  have v: "isVisible (run scenario_cfg [])"
    using C7_visibility_monotonic [where cfg = scenario_cfg] by (simp add: run_def)
  have l: "routeListener (run scenario_cfg [])"
    using C7_visibility_monotonic [where cfg = scenario_cfg and evs = "[]"] u by blast
  have w: "isVisible (step scenario_cfg (run scenario_cfg []) Frame)"
    using C7_visibility_monotonic [where cfg = scenario_cfg and s = "run scenario_cfg []"
        and ev = Frame] v
    by (simp del: step.simps)
  have c: "\<not> isVisible (step scenario_cfg (run scenario_cfg []) CloseClick)"
    using C7_visibility_monotonic [where cfg = scenario_cfg and s = "run scenario_cfg []"] r
    by (simp del: step.simps)
  have n: "\<not> isVisible (step scenario_cfg (run scenario_cfg []) RouteChangeStart)"
    using C7_visibility_monotonic [where cfg = scenario_cfg and s = "run scenario_cfg []"] l
    by (simp del: step.simps)
  have k: "\<not> isVisible (foldl (step scenario_cfg)
              (step scenario_cfg (run scenario_cfg []) CloseClick)
              [PointerDown (pointer_at 50 50), RouteChangeStart, RefreshClick half]) \<and>
           render scenario_cfg (foldl (step scenario_cfg)
              (step scenario_cfg (run scenario_cfg []) CloseClick)
              [PointerDown (pointer_at 50 50), RouteChangeStart, RefreshClick half]) = None"
    using C7_visibility_monotonic [where cfg = scenario_cfg
        and s = "step scenario_cfg (run scenario_cfg []) CloseClick"
        and later = "[PointerDown (pointer_at 50 50), RouteChangeStart, RefreshClick half]"] c
    by (simp del: step.simps)
  have i: "render scenario_cfg init = None"
    using C7_visibility_monotonic [where cfg = scenario_cfg and s = init] m by blast
  show ?thesis
    using r l c n k v w m i by (simp add: run_def del: step.simps)
qed


subsection \<open>C8: a response that arrives after teardown\<close>

text \<open>
  Claim C8. Once the component is torn down, no sequence of later events changes
  \<open>highlights\<close>, \<open>currentIndex\<close>, \<open>error\<close> or \<open>loading\<close> (nor the position or the visibility), and
  nothing is rendered. In particular, when the fetch was outstanding at teardown and its
  response arrives afterwards, the continuation runs (the request is no longer
  outstanding) and its setter calls change nothing. The source has no liveness test of
  its own: the cleanups of lines 41 to 43 and 179 to 185 detach the listeners and cancel
  the frame, and the setter calls of lines 100 to 109 are dropped by React because the
  instance is unmounted.
\<close>

theorem C8_stale_response_dropped:
  assumes "unmounted (run cfg evs)"
  shows "let s = run cfg evs; t = foldl (step cfg) s later
         in highlights t = highlights s \<and> currentIndex t = currentIndex s \<and>
            error t = error s \<and> loading t = loading s \<and>
            position t = position s \<and> isVisible t = isVisible s \<and>
            \<not> rendered cfg t \<and>
            (0 < inFlight s \<longrightarrow>
               inFlight (step cfg s (FetchSettled out)) = inFlight s - 1)"
proof -
  let ?s = "run cfg evs"
  let ?t = "foldl (step cfg) ?s later"
  have d: "torn_down ?s"
    using drag_inv_run route_inv_run assms by (rule unmounted_torn_down)
  have e: "?t\<lparr>inFlight := inFlight ?s\<rparr> = ?s" and d': "torn_down ?t"
    using torn_down_foldl [OF d, of cfg later] by simp_all
  have "highlights (?t\<lparr>inFlight := inFlight ?s\<rparr>) = highlights ?s"
    "currentIndex (?t\<lparr>inFlight := inFlight ?s\<rparr>) = currentIndex ?s"
    "error (?t\<lparr>inFlight := inFlight ?s\<rparr>) = error ?s"
    "loading (?t\<lparr>inFlight := inFlight ?s\<rparr>) = loading ?s"
    "position (?t\<lparr>inFlight := inFlight ?s\<rparr>) = position ?s"
    "isVisible (?t\<lparr>inFlight := inFlight ?s\<rparr>) = isVisible ?s"
    by (simp_all only: e)
  then have f: "highlights ?t = highlights ?s" "currentIndex ?t = currentIndex ?s"
    "error ?t = error ?s" "loading ?t = loading ?s"
    "position ?t = position ?s" "isVisible ?t = isVisible ?s"
    by simp_all
  have r: "\<not> rendered cfg ?t"
    using d' by (simp add: torn_down_def rendered_def)
  have c: "0 < inFlight ?s \<longrightarrow> inFlight (step cfg ?s (FetchSettled out)) = inFlight ?s - 1"
    using fetchSettled_counted [of ?s cfg out] by blast
  show ?thesis
    using f r c by (simp add: Let_def del: step.simps)
qed

text \<open>
  An instance: torn down while the fetch is outstanding, with nothing stored and the
  spinner on; the response with the item A arrives; the request is no longer outstanding,
  nothing is stored, \<open>loading\<close> is still true, and nothing is rendered.
\<close>

theorem C8_late_item_not_stored:
  "unmounted (run scenario_cfg [Unmount]) \<and>
   inFlight (run scenario_cfg [Unmount]) = 1 \<and>
   inFlight (run scenario_cfg
      [Unmount, FetchSettled (Responded (items_response [item_A]))]) = 0 \<and>
   highlights (run scenario_cfg
      [Unmount, FetchSettled (Responded (items_response [item_A]))]) = Arr [] \<and>
   loading (run scenario_cfg
      [Unmount, FetchSettled (Responded (items_response [item_A]))]) \<and>
   error (run scenario_cfg
      [Unmount, FetchSettled (Responded (items_response [item_A]))]) = None \<and>
   \<not> rendered scenario_cfg (run scenario_cfg
      [Unmount, FetchSettled (Responded (items_response [item_A]))])"
proof -
  have u: "unmounted (run scenario_cfg [Unmount])"
    and i: "inFlight (run scenario_cfg [Unmount]) = 1"
    and h: "highlights (run scenario_cfg [Unmount]) = Arr []"
    and l: "loading (run scenario_cfg [Unmount])"
    and e: "error (run scenario_cfg [Unmount]) = None"
    by (simp_all add: eval_defs)
  show ?thesis
    using C8_stale_response_dropped [OF u,
        of "[FetchSettled (Responded (items_response [item_A]))]"
           "Responded (items_response [item_A])"] u i h l e
    by (simp add: Let_def run_def del: step.simps)
qed

subsection \<open>C9: how many fetches\<close>

text \<open>
  Claim C9 says that at most one fetch is in flight, a second call of the fetch routine
  while one is outstanding doing nothing. \<open>fetchAllHighlights\<close> has no such guard: with an
  API key every call issues a request. The first theorem is the claim as amended. The
  routine counts one more request at each call with a key. Only the mount effect calls
  it, so the requests issued in the life of an instance are as many as the runs of that
  effect (one, plus one for each time React runs the effects again), or none when the
  feature is disabled or no key is configured; no more are outstanding than were issued.
  At most one is in flight as long as the effects have run once. The second theorem is
  the instance that contradicts the claim as stated: React runs the effects again while
  the first request is outstanding, and two requests are in flight.
\<close>

theorem C9_one_fetch_per_mount_effect:
  "issued (run cfg evs) =
     (if READWISE_ENABLED cfg \<and> truthy_key (READWISE_API_KEY cfg)
      then 1 + remounts evs else 0) \<and>
   inFlight (run cfg evs) \<le> issued (run cfg evs) \<and>
   (remounts evs = 0 \<longrightarrow> inFlight (run cfg evs) \<le> 1) \<and>
   inFlight (fetchAllHighlights cfg s) =
     (if truthy_key (READWISE_API_KEY cfg) then inFlight s + 1 else inFlight s) \<and>
   issued (fetchAllHighlights cfg s) =
     (if truthy_key (READWISE_API_KEY cfg) then issued s + 1 else issued s)"
proof -
  have a: "issued (run cfg evs) =
     (if READWISE_ENABLED cfg \<and> truthy_key (READWISE_API_KEY cfg)
      then 1 + remounts evs else 0)"
    unfolding run_def issued_foldl by (simp add: issued_init unmounted_init)
  have b: "inFlight (run cfg evs) \<le> issued (run cfg evs)"
    using fetch_inv_run [of cfg evs] by (simp add: fetch_inv_def)
  have c: "remounts evs = 0 \<longrightarrow> inFlight (run cfg evs) \<le> 1"
    using a b by (auto split: if_splits)
  show ?thesis
    using a b c by (simp add: fetchAllHighlights_def)
qed

theorem C9_two_in_flight:
  "inFlight (run scenario_cfg []) = 1 \<and>
   \<not> unmounted (run scenario_cfg []) \<and>
   inFlight (run scenario_cfg [Remount]) = 2 \<and>
   issued (run scenario_cfg [Remount]) = 2"
  by (simp add: eval_defs)

text \<open>
  An instance of the amended statement: one run of the mount effect, one request, also
  after it has failed; a second run of the effects, a second request.
\<close>

theorem C9_requests_counted:
  "READWISE_ENABLED scenario_cfg \<and> truthy_key (READWISE_API_KEY scenario_cfg) \<and>
   remounts [FetchSettled (Rejected ''offline''), RefreshClick half] = 0 \<and>
   issued (run scenario_cfg [FetchSettled (Rejected ''offline''), RefreshClick half]) = 1 \<and>
   inFlight (run scenario_cfg [FetchSettled (Rejected ''offline''), RefreshClick half]) \<le> 1 \<and>
   issued (run scenario_cfg [Remount]) = 2"
proof -
  have e: "READWISE_ENABLED scenario_cfg" "truthy_key (READWISE_API_KEY scenario_cfg)"
    by (simp_all add: scenario_cfg_def truthy_key_def truthy_str_def)
  show ?thesis
    using C9_one_fetch_per_mount_effect
        [of scenario_cfg "[FetchSettled (Rejected ''offline''), RefreshClick half]"]
      C9_one_fetch_per_mount_effect [of scenario_cfg "[Remount]"] e
    by simp
qed

subsection \<open>C10: the item on display\<close>




end
